theory Spec2Isabelle
  imports Main
begin

section \<open>JavaScript values used by the program\<close>

text \<open>
  Strings are character lists. An optional property of a JavaScript object (one that may be
  \<^verbatim>\<open>undefined\<close> or \<^verbatim>\<open>null\<close>) is an \<open>option\<close>. A string is falsy when it is
  absent or empty, which is what \<^verbatim>\<open>!x\<close>, \<^verbatim>\<open>x ? a : b\<close> and \<^verbatim>\<open>x || d\<close> test.
\<close>

definition truthy :: "string option \<Rightarrow> bool" where
  "truthy x = (case x of None \<Rightarrow> False | Some s \<Rightarrow> s \<noteq> [])"

text \<open>\<^verbatim>\<open>x || d\<close> where \<open>d\<close> is a string.\<close>

definition or_default :: "string option \<Rightarrow> string \<Rightarrow> string" where
  "or_default x d = (case x of None \<Rightarrow> d | Some s \<Rightarrow> if s = [] then d else s)"

text \<open>\<^verbatim>\<open>x || y\<close> where \<open>y\<close> may itself be absent.\<close>

definition or_else :: "string option \<Rightarrow> string option \<Rightarrow> string option" where
  "or_else x y = (if truthy x then x else y)"

text \<open>The decimal digits of a number, as a template literal \<^verbatim>\<open>`${n}`\<close> prints them.\<close>

definition digit :: "nat \<Rightarrow> char" where
  "digit d = ''0123456789'' ! d"

function string_of_nat :: "nat \<Rightarrow> string" where
  "string_of_nat n =
     (if n < 10 then [digit n] else string_of_nat (n div 10) @ [digit (n mod 10)])"
  by pat_completeness auto
termination
  by (relation "measure (\<lambda>n. n)") auto

declare string_of_nat.simps [simp del]

section \<open>Scanner results\<close>

text \<open>
  A node of a violation carries \<^verbatim>\<open>target\<close> and \<^verbatim>\<open>html\<close>; a raw issue of the second
  engine carries \<^verbatim>\<open>selector\<close> and \<^verbatim>\<open>context\<close> instead. The display reads all four
  properties off whatever object it iterates over, so a node has all four, each optional. The
  property \<^verbatim>\<open>context\<close> is the field \<open>ctxt\<close>. A violation is an object with the same
  four optional properties and, in addition, \<^verbatim>\<open>id\<close> (the field \<open>rule_id\<close>),
  \<^verbatim>\<open>description\<close>, \<^verbatim>\<open>impact\<close> and \<^verbatim>\<open>nodes\<close>.
\<close>

record node =
  target :: "string option"
  html :: "string option"
  ctxt :: "string option"
  selector :: "string option"

record violation = node +
  rule_id :: string
  description :: string
  impact :: "string option"
  nodes :: "node list option"

record pass =
  pass_id :: string
  pass_description :: string

text \<open>An issue of the second engine: \<^verbatim>\<open>code\<close>, \<^verbatim>\<open>message\<close>, \<^verbatim>\<open>type\<close>,
  \<^verbatim>\<open>selector\<close>, \<^verbatim>\<open>context\<close>.\<close>

record issue =
  issue_code :: string
  issue_message :: string
  issue_type :: string
  issue_selector :: string
  issue_context :: string

text \<open>What the first engine resolves to, and what the second engine resolves to.\<close>

record axe_output =
  axe_violations :: "violation list"
  axe_passes :: "pass list"

record pa11y_output =
  pa11y_issues :: "issue list"
  pa11y_passes :: "pass list option"

text \<open>
  An element of the array \<^verbatim>\<open>Promise.allSettled\<close> resolves to: fulfilled with a value, or
  rejected with a reason, of which the handler reads \<^verbatim>\<open>reason?.message\<close>.
\<close>

datatype 'a settled = Fulfilled 'a | Rejected "string option"

text \<open>
  The two entries of \<^verbatim>\<open>processedResults\<close>. A fulfilled value is passed on as it is (it
  has no \<^verbatim>\<open>error\<close> and no \<^verbatim>\<open>details\<close>); a rejection becomes the sentinel object.
\<close>

record processed_axe =
  axe_error :: "string option"
  axe_details :: "string option"
  violations :: "violation list"
  passes :: "pass list"

record processed_pa11y =
  pa11y_error :: "string option"
  pa11y_details :: "string option"
  issues :: "issue list"
  passes_opt :: "pass list option"

definition process_axe :: "axe_output settled \<Rightarrow> processed_axe" where
  "process_axe axeResults =
     (case axeResults of
        Fulfilled v \<Rightarrow>
          \<lparr>axe_error = None, axe_details = None,
           violations = axe_violations v, passes = axe_passes v\<rparr>
      | Rejected reason \<Rightarrow>
          \<lparr>axe_error = Some ''Axe-core test failed'',
           axe_details = Some (or_default reason ''Unknown error''),
           violations = [], passes = []\<rparr>)"

definition process_pa11y :: "pa11y_output settled \<Rightarrow> processed_pa11y" where
  "process_pa11y pa11yResults =
     (case pa11yResults of
        Fulfilled v \<Rightarrow>
          \<lparr>pa11y_error = None, pa11y_details = None,
           issues = pa11y_issues v, passes_opt = pa11y_passes v\<rparr>
      | Rejected reason \<Rightarrow>
          \<lparr>pa11y_error = Some ''Pa11y test failed'',
           pa11y_details = Some (or_default reason ''Unknown error''),
           issues = [], passes_opt = Some []\<rparr>)"

section \<open>The summary of the test endpoint\<close>

text \<open>
  The summary is the object literal with the three keys \<^verbatim>\<open>critical\<close>, \<^verbatim>\<open>serious\<close>
  and \<^verbatim>\<open>moderate\<close>, kept as an association list so that reading a key it does not have
  is visible as \<open>None\<close>.
\<close>

type_synonym summary = "(string \<times> nat) list"

definition axe_count :: "processed_axe \<Rightarrow> string \<Rightarrow> nat" where
  "axe_count a sev =
     (if truthy (axe_error a) then 0
      else length (filter (\<lambda>v. impact v = Some sev) (violations a)))"

definition pa11y_count :: "processed_pa11y \<Rightarrow> string \<Rightarrow> nat" where
  "pa11y_count p ty =
     (if truthy (pa11y_error p) then 0
      else length (filter (\<lambda>i. issue_type i = ty) (issues p)))"

definition make_summary :: "processed_axe \<Rightarrow> processed_pa11y \<Rightarrow> summary" where
  "make_summary a p =
     [(''critical'', axe_count a ''critical'' + pa11y_count p ''error''),
      (''serious'', axe_count a ''serious'' + pa11y_count p ''warning''),
      (''moderate'', axe_count a ''moderate'' + pa11y_count p ''notice'')]"

section \<open>The test endpoint\<close>

text \<open>
  The handler of \<^verbatim>\<open>POST /api/test\<close>. The URL parser (\<^verbatim>\<open>new URL\<close>) and the two
  engines are parameters: \<open>parses u\<close> says whether \<^verbatim>\<open>new URL(u)\<close> returns, and
  \<open>runAxe u\<close>, \<open>pa11y u\<close> are what the two promises settle to. The handler returns its
  response together with the engines it has started, in the order it started them.

  The request is \<^verbatim>\<open>req.body\<close>: it is absent when the JSON middleware has parsed no
  body, and otherwise an object whose \<^verbatim>\<open>url\<close> may be absent. The whole handler is
  inside a \<^verbatim>\<open>try\<close>: \<^verbatim>\<open>const { url } = req.body\<close> throws a \<^verbatim>\<open>TypeError\<close> on an
  absent body, and the \<^verbatim>\<open>catch\<close> answers with status 500 and the message of what was
  thrown, here the message the runtime gives to that \<^verbatim>\<open>TypeError\<close>.
\<close>

datatype engine = Axe | Pa11y

record req_body =
  body_url :: "string option"

datatype body =
    ErrorBody string
  | FailureBody string string
  | Report processed_axe processed_pa11y summary

record response =
  status :: nat
  json :: body

definition destructure_message :: string where
  "destructure_message = ''Cannot destructure property 'url' of 'req.body' as it is undefined.''"

definition api_test ::
  "(string \<Rightarrow> bool) \<Rightarrow> (string \<Rightarrow> axe_output settled) \<Rightarrow> (string \<Rightarrow> pa11y_output settled)
     \<Rightarrow> req_body option \<Rightarrow> response \<times> engine list" where
  "api_test parses runAxe pa11y req =
     (case req of
        None \<Rightarrow>
          (\<lparr>status = 500,
            json = FailureBody ''Failed to run accessibility test'' destructure_message\<rparr>, [])
      | Some b \<Rightarrow>
          (case body_url b of
             None \<Rightarrow> (\<lparr>status = 400, json = ErrorBody ''URL is required''\<rparr>, [])
           | Some u \<Rightarrow>
               if u = [] then (\<lparr>status = 400, json = ErrorBody ''URL is required''\<rparr>, [])
               else if \<not> parses u
                 then (\<lparr>status = 400, json = ErrorBody ''Invalid URL format''\<rparr>, [])
               else
                 let axeResults = runAxe u;
                     pa11yResults = pa11y u;
                     a = process_axe axeResults;
                     p = process_pa11y pa11yResults
                 in (\<lparr>status = 200, json = Report a p (make_summary a p)\<rparr>, [Axe, Pa11y])))"

section \<open>Formatting the results in the page\<close>

text \<open>
  \<^verbatim>\<open>performAccessibilityTest\<close> turns the endpoint's report into the object the page
  displays: the first engine's violations, then one violation for each issue of the second
  engine; the passes of both; and the summary as the endpoint sent it.
\<close>

definition normalize_issue :: "issue \<Rightarrow> violation" where
  "normalize_issue i =
     \<lparr>target = None, html = None, ctxt = None, selector = None,
      rule_id = issue_code i,
      description = issue_message i,
      impact = Some (if issue_type i = ''error'' then ''critical''
                     else if issue_type i = ''warning'' then ''serious''
                     else ''moderate''),
      nodes = Some [\<lparr>target = Some (issue_selector i), html = Some (issue_context i),
                     ctxt = None, selector = None\<rparr>]\<rparr>"

text \<open>
  The severity mapping in the specification's words: \<open>error\<close> to \<open>critical\<close>, \<open>warning\<close>
  to \<open>serious\<close>, \<open>notice\<close> to \<open>moderate\<close>; the three issue types are its domain.
\<close>

definition spec_severity_mapping :: "string \<Rightarrow> string option" where
  "spec_severity_mapping =
     map_of [(''error'', ''critical''), (''warning'', ''serious''), (''notice'', ''moderate'')]"

record formatted =
  f_violations :: "violation list"
  f_passes :: "pass list"
  f_summary :: summary

definition formattedResults :: "processed_axe \<Rightarrow> processed_pa11y \<Rightarrow> summary \<Rightarrow> formatted" where
  "formattedResults a p s =
     \<lparr>f_violations = violations a @ map normalize_issue (issues p),
      f_passes = passes a @ (case passes_opt p of None \<Rightarrow> [] | Some ps \<Rightarrow> ps),
      f_summary = s\<rparr>"

datatype test_error = ApiError nat | MalformedData

definition performAccessibilityTest :: "response \<Rightarrow> test_error + formatted" where
  "performAccessibilityTest r =
     (if \<not> (200 \<le> status r \<and> status r < 300) then Inl (ApiError (status r))
      else case json r of
             Report a p s \<Rightarrow> Inr (formattedResults a p s)
           | ErrorBody e \<Rightarrow> Inl MalformedData
           | FailureBody e d \<Rightarrow> Inl MalformedData)"

text \<open>A tile of the results header shows \<^verbatim>\<open>results.summary?.key || 0\<close>.\<close>

definition displayed_count :: "summary \<Rightarrow> string \<Rightarrow> nat" where
  "displayed_count s k = (case map_of s k of None \<Rightarrow> 0 | Some n \<Rightarrow> n)"

text \<open>The severities the page and the data model know.\<close>

definition severities :: "string list" where
  "severities = [''critical'', ''serious'', ''moderate'', ''minor'']"

definition severity_total :: "summary \<Rightarrow> nat" where
  "severity_total s = sum_list (map (displayed_count s) severities)"

section \<open>The audience table\<close>

definition audienceMap :: "(string \<times> string list) list" where
  "audienceMap =
     [(''color-contrast'', [''Visual impairments'', ''Low vision'', ''Color blindness'']),
      (''image-alt'', [''Blind users'', ''Screen reader users'', ''Low bandwidth users'']),
      (''label'', [''Screen reader users'', ''Keyboard users'', ''Cognitive disabilities'']),
      (''heading-order'',
         [''Screen reader users'', ''Cognitive disabilities'', ''Navigation difficulties'']),
      (''link-name'', [''Screen reader users'', ''Cognitive disabilities'', ''Motor disabilities'']),
      (''button-name'',
         [''Screen reader users'', ''Voice control users'', ''Cognitive disabilities'']),
      (''aria-required-attr'', [''Screen reader users'', ''Assistive technology users'']),
      (''keyboard-navigation'',
         [''Motor disabilities'', ''Keyboard-only users'', ''Screen reader users'']),
      (''focus-management'', [''Keyboard users'', ''Motor disabilities'', ''Cognitive disabilities'']),
      (''landmark-roles'',
         [''Screen reader users'', ''Navigation difficulties'', ''Cognitive disabilities'']),
      (''document-title'',
         [''Screen reader users'', ''Search engine users'', ''Cognitive disabilities'']),
      (''html-has-lang'', [''Screen reader users'', ''Translation software users'']),
      (''bypass'', [''Keyboard users'', ''Screen reader users'', ''Motor disabilities'']),
      (''page-has-heading-one'', [''Screen reader users'', ''SEO'', ''Cognitive disabilities'']),
      (''list'', [''Screen reader users'', ''Cognitive disabilities'']),
      (''definition-list'', [''Screen reader users'', ''Cognitive disabilities'']),
      (''dlitem'', [''Screen reader users'', ''Cognitive disabilities'']),
      (''listitem'', [''Screen reader users'', ''Cognitive disabilities'']),
      (''meta-refresh'', [''Cognitive disabilities'', ''Motor disabilities'', ''Seizure disorders'']),
      (''meta-viewport'', [''Mobile users'', ''Zoom users'', ''Low vision users'']),
      (''region'', [''Screen reader users'', ''Keyboard navigation users'']),
      (''skip-link'', [''Keyboard users'', ''Screen reader users'']),
      (''tabindex'', [''Keyboard users'', ''Screen reader users'']),
      (''valid-lang'', [''Screen reader users'', ''Translation software users''])]"

text \<open>
  \<^verbatim>\<open>audienceMap\<close> is an object literal, and \<^verbatim>\<open>audienceMap[issue]\<close> is a property read:
  it finds the object's own keys first and then the properties every object literal inherits
  from \<^verbatim>\<open>Object.prototype\<close>, whose names are listed here. Each of those is a function,
  except \<^verbatim>\<open>__proto__\<close>, which is the prototype object itself.
\<close>

definition object_prototype :: "string list" where
  "object_prototype =
     [''constructor'', ''hasOwnProperty'', ''isPrototypeOf'', ''propertyIsEnumerable'',
      ''toLocaleString'', ''toString'', ''valueOf'', ''__proto__'',
      ''__defineGetter__'', ''__defineSetter__'', ''__lookupGetter__'', ''__lookupSetter__'']"

datatype property = Undefined | Labels "string list" | Inherited string

definition getTargetAudience :: "string \<Rightarrow> property" where
  "getTargetAudience issue =
     (case map_of audienceMap issue of
        Some labels \<Rightarrow> Labels labels
      | None \<Rightarrow> if issue \<in> set object_prototype then Inherited issue else Undefined)"

text \<open>
  The page shows the audience block as \<^verbatim>\<open>targetAudience && targetAudience.map(...)\<close>:
  nothing for \<^verbatim>\<open>undefined\<close>, the labels for an array, and a \<^verbatim>\<open>TypeError\<close> for any
  other (truthy) value, which has no \<^verbatim>\<open>map\<close> method.
\<close>

datatype render_error = TypeError

definition render_audience :: "property \<Rightarrow> render_error + string list option" where
  "render_audience targetAudience =
     (case targetAudience of
        Undefined \<Rightarrow> Inr None
      | Labels labels \<Rightarrow> Inr (Some labels)
      | Inherited name \<Rightarrow> Inl TypeError)"

section \<open>The nodes the page iterates over\<close>

text \<open>
  \<^verbatim>\<open>violation.nodes || [violation]\<close>: an array, also an empty one, is truthy; only an
  absent \<^verbatim>\<open>nodes\<close> gives the one-element array holding the violation itself, read as a
  node.
\<close>

definition displayed_nodes :: "violation \<Rightarrow> node list" where
  "displayed_nodes violation =
     (case nodes violation of
        None \<Rightarrow> [node.truncate violation]
      | Some ns \<Rightarrow> ns)"

record node_view =
  solutionKey :: string
  targetAudience :: property
  nodeHtml :: "string option"
  nodeTarget :: "string option"

definition render_node :: "violation \<Rightarrow> nat \<times> node \<Rightarrow> node_view" where
  "render_node violation p =
     (case p of (nodeIndex, n) \<Rightarrow>
        \<lparr>solutionKey = rule_id violation @ ''-'' @ string_of_nat nodeIndex,
         targetAudience = getTargetAudience (rule_id violation),
         nodeHtml = or_else (html n) (ctxt n),
         nodeTarget = or_else (target n) (selector n)\<rparr>)"

definition render_nodes :: "violation \<Rightarrow> node_view list" where
  "render_nodes violation = map (render_node violation) (enumerate 0 (displayed_nodes violation))"

section \<open>The remediation client\<close>

text \<open>
  The state of the page that the remediation code touches: the object \<^verbatim>\<open>solutions\<close>, the
  object \<^verbatim>\<open>loadingSolutions\<close>, and the sequence of \<^verbatim>\<open>setSolutions\<close> updates made so
  far (key and value), which is what an observer of the \<^verbatim>\<open>solutions\<close> state sees.
\<close>

record ui =
  solutions :: "string \<rightharpoonup> string"
  loadingSolutions :: "string \<rightharpoonup> bool"
  updates :: "(string \<times> string) list"

definition setSolutions :: "string \<Rightarrow> string \<Rightarrow> ui \<Rightarrow> ui" where
  "setSolutions k v st =
     st\<lparr>solutions := (solutions st)(k \<mapsto> v), updates := updates st @ [(k, v)]\<rparr>"

definition setLoadingSolutions :: "string \<Rightarrow> bool \<Rightarrow> ui \<Rightarrow> ui" where
  "setLoadingSolutions k b st = st\<lparr>loadingSolutions := (loadingSolutions st)(k \<mapsto> b)\<rparr>"

text \<open>
  What the outside world answers. The key request throws, or answers with a status that is
  not ok, or answers with a JSON body whose \<^verbatim>\<open>apiKey\<close> may be absent. The streamed
  request throws when it is created, or delivers chunks (each with an optional
  \<^verbatim>\<open>choices[0]?.delta?.content\<close>) and then either ends or throws. The plain request throws
  or answers with an optional \<^verbatim>\<open>choices[0]?.message?.content\<close>. The prompt is built from
  the issue, the description and the HTML and is only sent; the answers are parameters.
\<close>

datatype key_response = FetchFails string | KeyStatus nat | KeyJson "string option"

datatype stream_response = CreateFails string | Chunks "string option list" "string option"

datatype plain_response = RequestFails string | Content "string option"

record llm =
  keyResponse :: key_response
  streamResponse :: stream_response
  response :: plain_response

text \<open>\<^verbatim>\<open>chunk.choices[0]?.delta?.content || ""\<close>.\<close>

definition delta_content :: "string option \<Rightarrow> string" where
  "delta_content chunk = or_default chunk []"

text \<open>The body of \<^verbatim>\<open>for await (const chunk of streamResponse)\<close>.\<close>

fun stream_loop :: "string \<Rightarrow> string option list \<Rightarrow> string \<Rightarrow> ui \<Rightarrow> string \<times> ui" where
  "stream_loop key [] streamedContent st = (streamedContent, st)"
| "stream_loop key (chunk # rest) streamedContent st =
     (let content = delta_content chunk;
          streamedContent' = streamedContent @ content
      in stream_loop key rest streamedContent' (setSolutions key streamedContent' st))"

definition failed :: "string \<Rightarrow> string" where
  "failed message = ''Failed to get AI solution: '' @ message"

text \<open>The \<^verbatim>\<open>catch (streamError)\<close> branch: the request without streaming.\<close>

definition fallback :: "llm \<Rightarrow> string \<Rightarrow> ui \<Rightarrow> (string + string) \<times> ui" where
  "fallback env key st =
     (case response env of
        RequestFails message \<Rightarrow> (Inl (failed message), st)
      | Content c \<Rightarrow>
          let content = or_default c ''No response generated''
          in (Inr content, setSolutions key content st))"

text \<open>\<^verbatim>\<open>getAISolution\<close>: \<open>Inr\<close> is the returned text, \<open>Inl\<close> the message of the error thrown.\<close>

definition solution_key :: "string \<Rightarrow> string \<Rightarrow> string" where
  "solution_key issue descr = issue @ ''-'' @ take 20 descr"

definition getAISolution ::
  "llm \<Rightarrow> string \<Rightarrow> string \<Rightarrow> string option \<Rightarrow> ui \<Rightarrow> (string + string) \<times> ui" where
  "getAISolution env issue descr html_arg st =
     (let key = solution_key issue descr in
      case keyResponse env of
        FetchFails message \<Rightarrow> (Inl (failed message), st)
      | KeyStatus s \<Rightarrow>
          (Inl (failed (''Failed to get Groq API key: '' @ string_of_nat s)), st)
      | KeyJson apiKey \<Rightarrow>
          if \<not> truthy apiKey
          then (Inl (failed ''No Groq API key returned from backend''), st)
          else
            (case streamResponse env of
               CreateFails streamError \<Rightarrow> fallback env key st
             | Chunks chunks None \<Rightarrow>
                 (case stream_loop key chunks [] st of
                    (streamedContent, st') \<Rightarrow> (Inr streamedContent, st'))
             | Chunks chunks (Some streamError) \<Rightarrow>
                 fallback env key (snd (stream_loop key chunks [] st))))"

text \<open>\<^verbatim>\<open>handleGetSolution\<close>, the click handler of a node's button.\<close>

definition handle_key :: "violation \<Rightarrow> nat \<Rightarrow> string" where
  "handle_key violation nodeIndex = rule_id violation @ ''-'' @ string_of_nat nodeIndex"

definition node_html :: "violation \<Rightarrow> nat \<Rightarrow> string option" where
  "node_html violation nodeIndex =
     (case nodes violation of
        None \<Rightarrow> None
      | Some ns \<Rightarrow> if nodeIndex < length ns then html (ns ! nodeIndex) else None)"

definition handleGetSolution :: "llm \<Rightarrow> violation \<Rightarrow> nat \<Rightarrow> ui \<Rightarrow> ui" where
  "handleGetSolution env violation nodeIndex st =
     (let key = handle_key violation nodeIndex in
      if truthy (solutions st key) then st
      else
        let st1 = setLoadingSolutions key True st;
            r = getAISolution env (rule_id violation) (description violation)
                  (or_else (node_html violation nodeIndex) (ctxt violation)) st1;
            st3 = (case fst r of
                     Inr solution \<Rightarrow> setSolutions key solution (snd r)
                   | Inl message \<Rightarrow>
                       setSolutions key (''Error getting solution: '' @ message) (snd r))
        in setLoadingSolutions key False st3)"

text \<open>
  The violation list the page holds for what the two engines settled to: the endpoint
  processes the two outcomes and the page formats the report.
\<close>

definition merged_violations :: "axe_output settled \<Rightarrow> pa11y_output settled \<Rightarrow> violation list" where
  "merged_violations ra rb =
     f_violations (formattedResults (process_axe ra) (process_pa11y rb)
       (make_summary (process_axe ra) (process_pa11y rb)))"

section \<open>Example inputs\<close>

text \<open>
  Concrete inputs for the examples below. \<open>has_http_scheme\<close> stands for the URL parser on
  the few strings the examples use.
\<close>

definition has_http_scheme :: "string \<Rightarrow> bool" where
  "has_http_scheme u = (take 7 u = ''http://'' \<or> take 8 u = ''https://'')"

definition axe_down :: "string \<Rightarrow> axe_output settled" where
  "axe_down u = Rejected (Some ''Navigation timeout of 60000 ms exceeded'')"

definition pa11y_down :: "string \<Rightarrow> pa11y_output settled" where
  "pa11y_down u = Rejected None"

definition minor_violation :: violation where
  "minor_violation =
     \<lparr>target = None, html = None, ctxt = None, selector = None,
      rule_id = ''region'', description = ''All page content should be contained by landmarks'',
      impact = Some ''minor'',
      nodes = Some [\<lparr>target = Some ''p'', html = Some ''<p>text</p>'', ctxt = None,
                     selector = None\<rparr>]\<rparr>"

definition axe_one_minor :: "string \<Rightarrow> axe_output settled" where
  "axe_one_minor u = Fulfilled \<lparr>axe_violations = [minor_violation], axe_passes = []\<rparr>"

definition pa11y_clean :: "string \<Rightarrow> pa11y_output settled" where
  "pa11y_clean u = Fulfilled \<lparr>pa11y_issues = [], pa11y_passes = None\<rparr>"

definition alt_violation :: violation where
  "alt_violation =
     \<lparr>target = None, html = None, ctxt = None, selector = None,
      rule_id = ''image-alt'', description = ''Images must have alternate text'',
      impact = Some ''critical'',
      nodes = Some [\<lparr>target = Some ''img'', html = Some ''<img>'', ctxt = None,
                     selector = None\<rparr>]\<rparr>"

definition h1_issue :: issue where
  "h1_issue =
     \<lparr>issue_code = ''H1'', issue_message = ''Heading is empty'', issue_type = ''warning'',
      issue_selector = ''#main > h1'', issue_context = ''<h1></h1>''\<rparr>"

definition example_axe :: processed_axe where
  "example_axe =
     \<lparr>axe_error = None, axe_details = None, violations = [alt_violation],
      passes = [\<lparr>pass_id = ''document-title'', pass_description = ''Documents must have a title''\<rparr>]\<rparr>"

definition example_pa11y :: processed_pa11y where
  "example_pa11y =
     \<lparr>pa11y_error = None, pa11y_details = None, issues = [h1_issue], passes_opt = None\<rparr>"

text \<open>A violation without \<^verbatim>\<open>nodes\<close> (a raw issue), and one whose \<^verbatim>\<open>nodes\<close> is the
  empty array.\<close>

definition no_nodes_violation :: violation where
  "no_nodes_violation =
     \<lparr>target = None, html = None, ctxt = Some ''<h1></h1>'', selector = Some ''#main > h1'',
      rule_id = ''H1'', description = ''Heading is empty'', impact = Some ''serious'',
      nodes = None\<rparr>"

definition zero_nodes_violation :: violation where
  "zero_nodes_violation =
     \<lparr>target = None, html = None, ctxt = None, selector = None,
      rule_id = ''image-alt'', description = ''Images must have alternate text'',
      impact = Some ''critical'', nodes = Some []\<rparr>"

text \<open>
  A page state with nothing stored yet; a service that streams the chunks \<open>A\<close>, \<open>B\<close>,
  \<open>C\<close> and ends; and one whose stream is a single chunk without content and then ends.
\<close>

definition empty_ui :: ui where
  "empty_ui = \<lparr>solutions = Map.empty, loadingSolutions = Map.empty, updates = []\<rparr>"

definition llm_abc :: llm where
  "llm_abc =
     \<lparr>keyResponse = KeyJson (Some ''gsk_example''),
      streamResponse = Chunks [Some ''A'', Some ''B'', Some ''C''] None,
      response = Content (Some ''unused'')\<rparr>"

definition llm_silent :: llm where
  "llm_silent =
     \<lparr>keyResponse = KeyJson (Some ''gsk_example''),
      streamResponse = Chunks [None] None,
      response = Content (Some ''unused'')\<rparr>"

section \<open>The test endpoint: URL validation\<close>

text \<open>
  For every request with a parsed body whose URL is absent, empty or does not parse, the
  endpoint answers with status 400 and an error body, and it has started neither engine.
  No request whose URL is absent or does not parse starts an engine, with or without a
  parsed body; a URL that parses starts both engines, the first engine first.
\<close>

lemma invalid_url_rejected:
  assumes "body_url b = None \<or> body_url b = Some []
     \<or> (\<exists>u. body_url b = Some u \<and> \<not> parses u)"
  shows "status (fst (api_test parses runAxe pa11y (Some b))) = 400
     \<and> (\<exists>e. json (fst (api_test parses runAxe pa11y (Some b))) = ErrorBody e)
     \<and> snd (api_test parses runAxe pa11y (Some b)) = []"
  using assms by (auto simp: api_test_def split: option.splits)

lemma invalid_url_example:
  "status (fst (api_test has_http_scheme axe_one_minor pa11y_clean
      (Some \<lparr>body_url = Some ''example dot com''\<rparr>))) = 400
   \<and> snd (api_test has_http_scheme axe_one_minor pa11y_clean
      (Some \<lparr>body_url = Some ''example dot com''\<rparr>)) = []"
  by (simp add: api_test_def has_http_scheme_def)

lemma invalid_url_starts_no_engine:
  assumes "req = None \<or> (\<exists>b. req = Some b \<and> (body_url b = None \<or> body_url b = Some []
     \<or> (\<exists>u. body_url b = Some u \<and> \<not> parses u)))"
  shows "snd (api_test parses runAxe pa11y req) = []"
  using assms by (auto simp: api_test_def split: option.splits)

lemma valid_url_starts_both:
  "u \<noteq> [] \<Longrightarrow> parses u \<Longrightarrow>
     snd (api_test parses runAxe pa11y (Some \<lparr>body_url = Some u\<rparr>)) = [Axe, Pa11y]"
  by (simp add: api_test_def Let_def)

text \<open>
  Claim C9 says that every request whose URL is absent is answered with status 400. A
  request for which no body was parsed has no URL, and the handler answers it with status
  500: reading \<^verbatim>\<open>url\<close> off the absent body throws before the test for an absent URL is
  reached, and the \<^verbatim>\<open>catch\<close> of the handler answers. Neither engine has been started.
\<close>

theorem absent_body_answers_500:
  "api_test has_http_scheme axe_one_minor pa11y_clean None =
     (\<lparr>status = 500,
       json = FailureBody ''Failed to run accessibility test''
                ''Cannot destructure property 'url' of 'req.body' as it is undefined.''\<rparr>, [])"
  by (simp add: api_test_def destructure_message_def)

section \<open>The test endpoint: both engines failing\<close>

text \<open>
  Claim C1, as stated, fails: with both engines rejected the endpoint answers with status 200
  and a report with zero counts; the two failure reasons travel inside the report.
\<close>

theorem both_fail_counterexample:
  "fst (api_test has_http_scheme axe_down pa11y_down
      (Some \<lparr>body_url = Some ''http://example.com''\<rparr>)) =
     \<lparr>status = 200,
      json = Report
        \<lparr>axe_error = Some ''Axe-core test failed'',
         axe_details = Some ''Navigation timeout of 60000 ms exceeded'',
         violations = [], passes = []\<rparr>
        \<lparr>pa11y_error = Some ''Pa11y test failed'',
         pa11y_details = Some ''Unknown error'',
         issues = [], passes_opt = Some []\<rparr>
        [(''critical'', 0), (''serious'', 0), (''moderate'', 0)]\<rparr>"
  by (simp add: api_test_def has_http_scheme_def axe_down_def pa11y_down_def Let_def
      process_axe_def process_pa11y_def make_summary_def axe_count_def pa11y_count_def
      truthy_def or_default_def)

text \<open>
  Claim C1, amended. For every request with a URL that parses and both engines rejected, the
  endpoint answers with status 200 and a report whose two engine entries are the failure
  sentinels, each with its engine's failure reason (the message of the rejection, or
  \<^verbatim>\<open>Unknown error\<close>) and empty result lists, and whose summary counts are zero.
\<close>

theorem both_fail_report:
  assumes "u \<noteq> []" and "parses u"
    and "runAxe u = Rejected ra" and "pa11y u = Rejected rb"
  shows "fst (api_test parses runAxe pa11y (Some \<lparr>body_url = Some u\<rparr>)) =
     \<lparr>status = 200,
      json = Report
        \<lparr>axe_error = Some ''Axe-core test failed'',
         axe_details = Some (or_default ra ''Unknown error''),
         violations = [], passes = []\<rparr>
        \<lparr>pa11y_error = Some ''Pa11y test failed'',
         pa11y_details = Some (or_default rb ''Unknown error''),
         issues = [], passes_opt = Some []\<rparr>
        [(''critical'', 0), (''serious'', 0), (''moderate'', 0)]\<rparr>"
  using assms
  by (simp add: api_test_def Let_def process_axe_def process_pa11y_def make_summary_def
      axe_count_def pa11y_count_def truthy_def)

theorem both_fail_report_witness:
  "''http://example.com'' \<noteq> [] \<and> has_http_scheme ''http://example.com''
   \<and> axe_down ''http://example.com'' = Rejected (Some ''Navigation timeout of 60000 ms exceeded'')
   \<and> pa11y_down ''http://example.com'' = Rejected None
   \<and> status (fst (api_test has_http_scheme axe_down pa11y_down
      (Some \<lparr>body_url = Some ''http://example.com''\<rparr>))) = 200"
proof -
  have a: "''http://example.com'' \<noteq> []" by simp
  have b: "has_http_scheme ''http://example.com''" by (simp add: has_http_scheme_def)
  have c: "axe_down ''http://example.com'' = Rejected (Some ''Navigation timeout of 60000 ms exceeded'')"
    by (simp add: axe_down_def)
  have d: "pa11y_down ''http://example.com'' = Rejected None" by (simp add: pa11y_down_def)
  show ?thesis using a b c d both_fail_report [where u = "''http://example.com''" and parses = has_http_scheme
      and runAxe = axe_down and pa11y = pa11y_down, OF a b c d] by simp
qed

section \<open>The summary\<close>

text \<open>
  What holds of the summary for every pair of engine outcomes: the counters
  \<^verbatim>\<open>critical\<close> and \<^verbatim>\<open>serious\<close> are the numbers of merged violations of that
  severity; so is \<^verbatim>\<open>moderate\<close> when every issue of the second engine has one of its
  three types; the summary has no key \<^verbatim>\<open>minor\<close>; and the four displayed counters add up
  to at most the number of merged violations.
\<close>

lemma normalize_impact_critical:
  "impact (normalize_issue i) = Some ''critical'' \<longleftrightarrow> issue_type i = ''error''"
  by (simp add: normalize_issue_def)

lemma normalize_impact_serious:
  "impact (normalize_issue i) = Some ''serious'' \<longleftrightarrow> issue_type i = ''warning''"
  by (simp add: normalize_issue_def)

lemma normalize_impact_moderate:
  "impact (normalize_issue i) = Some ''moderate'' \<longleftrightarrow>
     issue_type i \<noteq> ''error'' \<and> issue_type i \<noteq> ''warning''"
  by (simp add: normalize_issue_def)

lemma normalize_impact_minor: "impact (normalize_issue i) \<noteq> Some ''minor''"
  by (simp add: normalize_issue_def)

lemma axe_count_processed:
  "axe_count (process_axe r) sev =
     length (filter (\<lambda>v. impact v = Some sev) (violations (process_axe r)))"
  by (cases r) (simp_all add: axe_count_def process_axe_def truthy_def)

lemma pa11y_count_processed:
  "pa11y_count (process_pa11y r) ty =
     length (filter (\<lambda>i. issue_type i = ty) (issues (process_pa11y r)))"
  by (cases r) (simp_all add: pa11y_count_def process_pa11y_def truthy_def)

lemma summary_critical:
  "map_of (make_summary (process_axe ra) (process_pa11y rb)) ''critical'' =
     Some (length (filter (\<lambda>v. impact v = Some ''critical'') (merged_violations ra rb)))"
  by (simp add: make_summary_def merged_violations_def formattedResults_def axe_count_processed
      pa11y_count_processed comp_def normalize_impact_critical)

lemma summary_serious:
  "map_of (make_summary (process_axe ra) (process_pa11y rb)) ''serious'' =
     Some (length (filter (\<lambda>v. impact v = Some ''serious'') (merged_violations ra rb)))"
  by (simp add: make_summary_def merged_violations_def formattedResults_def axe_count_processed
      pa11y_count_processed comp_def normalize_impact_serious)

lemma summary_moderate:
  assumes "\<forall>i \<in> set (issues (process_pa11y rb)). issue_type i \<in> {''error'', ''warning'', ''notice''}"
  shows "map_of (make_summary (process_axe ra) (process_pa11y rb)) ''moderate'' =
     Some (length (filter (\<lambda>v. impact v = Some ''moderate'') (merged_violations ra rb)))"
proof -
  have "filter (\<lambda>i. issue_type i = ''notice'') (issues (process_pa11y rb)) =
        filter (\<lambda>i. impact (normalize_issue i) = Some ''moderate'') (issues (process_pa11y rb))"
    using assms by (intro filter_cong refl) (auto simp: normalize_impact_moderate)
  then show ?thesis
    by (simp add: make_summary_def merged_violations_def formattedResults_def axe_count_processed
      pa11y_count_processed comp_def)
qed

lemma summary_minor_absent:
  "map_of (make_summary a p) ''minor'' = None"
  by (simp add: make_summary_def)

lemma three_filters_le:
  "length (filter (\<lambda>x. f x = a) xs) + length (filter (\<lambda>x. f x = b) xs)
     + length (filter (\<lambda>x. f x = c) xs) \<le> length xs" if "a \<noteq> b" "a \<noteq> c" "b \<noteq> c"
  using that by (induction xs) auto

lemma summary_total_le:
  "severity_total (make_summary (process_axe ra) (process_pa11y rb)) \<le> length (merged_violations ra rb)"
proof -
  have a: "axe_count (process_axe ra) ''critical'' + axe_count (process_axe ra) ''serious''
      + axe_count (process_axe ra) ''moderate'' \<le> length (violations (process_axe ra))"
    unfolding axe_count_processed by (rule three_filters_le) simp_all
  have b: "pa11y_count (process_pa11y rb) ''error'' + pa11y_count (process_pa11y rb) ''warning''
      + pa11y_count (process_pa11y rb) ''notice'' \<le> length (issues (process_pa11y rb))"
    unfolding pa11y_count_processed by (rule three_filters_le) simp_all
  have "severity_total (make_summary (process_axe ra) (process_pa11y rb)) =
      (axe_count (process_axe ra) ''critical'' + axe_count (process_axe ra) ''serious''
      + axe_count (process_axe ra) ''moderate'') +
      (pa11y_count (process_pa11y rb) ''error'' + pa11y_count (process_pa11y rb) ''warning''
      + pa11y_count (process_pa11y rb) ''notice'')"
    by (simp add: severity_total_def severities_def displayed_count_def make_summary_def)
  moreover have "length (merged_violations ra rb) =
      length (violations (process_axe ra)) + length (issues (process_pa11y rb))"
    by (simp add: merged_violations_def formattedResults_def)
  ultimately show ?thesis using a b by linarith
qed

text \<open>
  Claim C2 asks for a counter \<^verbatim>\<open>minor\<close> and for the four counters to add up to the number
  of violations when every severity is recognized. The endpoint's summary has no such
  counter: for one violation of impact \<^verbatim>\<open>minor\<close> from the first engine and nothing from
  the second, the page holds one violation, the summary has no key \<^verbatim>\<open>minor\<close>, the tile
  \<^verbatim>\<open>Minor\<close> shows 0, and the four tiles add up to 0.
\<close>

theorem minor_not_counted:
  "performAccessibilityTest
     (fst (api_test has_http_scheme axe_one_minor pa11y_clean
        (Some \<lparr>body_url = Some ''http://example.com''\<rparr>))) =
     Inr \<lparr>f_violations = [minor_violation], f_passes = [],
          f_summary = [(''critical'', 0), (''serious'', 0), (''moderate'', 0)]\<rparr>
   \<and> impact minor_violation = Some ''minor''
   \<and> map_of [(''critical'', 0::nat), (''serious'', 0), (''moderate'', 0)] ''minor'' = None
   \<and> displayed_count [(''critical'', 0), (''serious'', 0), (''moderate'', 0)] ''minor'' = 0
   \<and> severity_total [(''critical'', 0), (''serious'', 0), (''moderate'', 0)] = 0"
  by (simp add: api_test_def has_http_scheme_def axe_one_minor_def pa11y_clean_def Let_def
      process_axe_def process_pa11y_def make_summary_def axe_count_def pa11y_count_def
      truthy_def performAccessibilityTest_def formattedResults_def minor_violation_def
      displayed_count_def severity_total_def severities_def)

section \<open>Normalizing the second engine's issues\<close>

text \<open>
  Claim C6. Every issue of the second engine becomes exactly one violation (the list of
  normalized issues is as long as the list of issues), with the issue's code and message,
  with exactly one node built from the issue's selector and HTML snippet, and with the
  severity the fixed mapping gives to the issue's type: \<open>critical\<close> for \<open>error\<close>,
  \<open>serious\<close> for \<open>warning\<close>, \<open>moderate\<close> for \<open>notice\<close>.
\<close>

theorem issue_becomes_one_violation:
  "length (map normalize_issue is) = length is
   \<and> rule_id (normalize_issue i) = issue_code i
   \<and> description (normalize_issue i) = issue_message i
   \<and> nodes (normalize_issue i) =
       Some [\<lparr>target = Some (issue_selector i), html = Some (issue_context i),
              ctxt = None, selector = None\<rparr>]
   \<and> length (displayed_nodes (normalize_issue i)) = 1
   \<and> (spec_severity_mapping (issue_type i) = Some s \<longrightarrow> impact (normalize_issue i) = Some s)"
  by (auto simp: normalize_issue_def displayed_nodes_def spec_severity_mapping_def
      split: if_splits)

theorem issue_becomes_one_violation_witness:
  "spec_severity_mapping (issue_type h1_issue) = Some ''serious''
   \<and> impact (normalize_issue h1_issue) = Some ''serious''
   \<and> nodes (normalize_issue h1_issue) =
       Some [\<lparr>target = Some ''#main > h1'', html = Some ''<h1></h1>'', ctxt = None,
              selector = None\<rparr>]"
proof -
  have a: "spec_severity_mapping (issue_type h1_issue) = Some ''serious''"
    by (simp add: spec_severity_mapping_def h1_issue_def)
  show ?thesis
    using a issue_becomes_one_violation [of "[h1_issue]" h1_issue "''serious''"]
    by (simp add: h1_issue_def)
qed

text \<open>The three issue types are the domain of the mapping; the last branch of the
  conditional gives \<open>moderate\<close> to whatever is not \<open>error\<close> or \<open>warning\<close>.\<close>

lemma other_issue_type_is_moderate:
  "issue_type i \<noteq> ''error'' \<Longrightarrow> issue_type i \<noteq> ''warning'' \<Longrightarrow>
     impact (normalize_issue i) = Some ''moderate''"
  by (simp add: normalize_issue_def)

lemma spec_severity_mapping_dom:
  "spec_severity_mapping t \<noteq> None \<longleftrightarrow> t \<in> {''error'', ''warning'', ''notice''}"
  by (simp add: spec_severity_mapping_def)

section \<open>Merging the two engines' results\<close>

text \<open>
  Claim C7. The merged violation sequence is the first engine's violations followed by the
  second engine's normalized issues, each in its own order: its length is the sum of the two
  lengths, its first positions hold the first engine's violations, and the positions after
  them hold the normalized issues. The merged passes are the first engine's followed by the
  second engine's (none when the second engine reports no passes).
\<close>

theorem merged_is_A_then_B:
  "f_violations (formattedResults a p s) = violations a @ map normalize_issue (issues p)
   \<and> length (f_violations (formattedResults a p s)) = length (violations a) + length (issues p)
   \<and> (\<forall>k < length (violations a). f_violations (formattedResults a p s) ! k = violations a ! k)
   \<and> (\<forall>k < length (issues p).
        f_violations (formattedResults a p s) ! (length (violations a) + k) =
          normalize_issue (issues p ! k))
   \<and> f_passes (formattedResults a p s) =
       passes a @ (case passes_opt p of None \<Rightarrow> [] | Some ps \<Rightarrow> ps)"
  by (simp add: formattedResults_def nth_append)

theorem merged_is_A_then_B_witness:
  "(0::nat) < length (violations example_axe) \<and> (0::nat) < length (issues example_pa11y)
   \<and> map rule_id (f_violations (formattedResults example_axe example_pa11y
        (make_summary example_axe example_pa11y))) = [''image-alt'', ''H1'']
   \<and> f_violations (formattedResults example_axe example_pa11y
        (make_summary example_axe example_pa11y)) ! 0 = alt_violation
   \<and> f_violations (formattedResults example_axe example_pa11y
        (make_summary example_axe example_pa11y)) ! 1 = normalize_issue h1_issue
   \<and> make_summary example_axe example_pa11y =
        [(''critical'', 1), (''serious'', 1), (''moderate'', 0)]"
proof -
  have a: "(0::nat) < length (violations example_axe)" by (simp add: example_axe_def)
  have b: "(0::nat) < length (issues example_pa11y)" by (simp add: example_pa11y_def)
  have s: "make_summary example_axe example_pa11y =
        [(''critical'', 1), (''serious'', 1), (''moderate'', 0)]"
    by (simp add: make_summary_def axe_count_def pa11y_count_def example_axe_def
        example_pa11y_def truthy_def alt_violation_def h1_issue_def)
  show ?thesis
    using a b s merged_is_A_then_B [of example_axe example_pa11y
        "make_summary example_axe example_pa11y"]
    by (simp add: example_axe_def example_pa11y_def normalize_issue_def h1_issue_def
        alt_violation_def)
qed

section \<open>The nodes of a displayed violation\<close>

text \<open>
  Claim C5, as stated, fails: a violation whose \<^verbatim>\<open>nodes\<close> is the empty array is iterated
  over zero nodes, and nothing is displayed for it.
\<close>

theorem zero_nodes_counterexample:
  "nodes zero_nodes_violation = Some []
   \<and> displayed_nodes zero_nodes_violation = []
   \<and> render_nodes zero_nodes_violation = []"
  by (simp add: zero_nodes_violation_def displayed_nodes_def render_nodes_def enumerate_eq_zip)

text \<open>
  Claim C5, amended. For every displayed violation whose \<^verbatim>\<open>nodes\<close> is absent or a
  non-empty array, the sequence of nodes the per-node display iterates over is non-empty, and
  one block is displayed for each of its nodes: a violation arriving without \<^verbatim>\<open>nodes\<close> is
  iterated as the single placeholder node that is the violation itself, and one with
  \<^verbatim>\<open>nodes\<close> is iterated over exactly that array.
\<close>

theorem displayed_nodes_nonempty:
  assumes "nodes v \<noteq> Some []"
  shows "displayed_nodes v \<noteq> []
     \<and> length (render_nodes v) = length (displayed_nodes v)
     \<and> displayed_nodes v = (case nodes v of None \<Rightarrow> [node.truncate v] | Some ns \<Rightarrow> ns)"
  using assms by (auto simp: displayed_nodes_def render_nodes_def split: option.splits)

theorem displayed_nodes_nonempty_witness:
  "nodes no_nodes_violation \<noteq> Some []
   \<and> displayed_nodes no_nodes_violation =
       [\<lparr>target = None, html = None, ctxt = Some ''<h1></h1>'', selector = Some ''#main > h1''\<rparr>]
   \<and> length (render_nodes no_nodes_violation) = 1"
proof -
  have a: "nodes no_nodes_violation \<noteq> Some []" by (simp add: no_nodes_violation_def)
  show ?thesis
    using a displayed_nodes_nonempty [OF a]
    by (simp add: no_nodes_violation_def node.truncate_def displayed_nodes_def)
qed

lemma placeholder_node:
  "nodes v = None \<Longrightarrow> render_nodes v =
     [\<lparr>solutionKey = handle_key v 0, targetAudience = getTargetAudience (rule_id v),
       nodeHtml = or_else (html v) (ctxt v), nodeTarget = or_else (target v) (selector v)\<rparr>]"
  by (simp add: render_nodes_def displayed_nodes_def enumerate_eq_zip render_node_def
      handle_key_def node.truncate_def)

section \<open>The audience lookup\<close>

text \<open>
  Rule ids listed in the table get their labels; rule ids that are neither listed nor the
  name of an inherited property get \<^verbatim>\<open>undefined\<close>, and the page then displays no audience
  block.
\<close>

lemma audience_of_listed_rule:
  "map_of audienceMap issue = Some labels \<Longrightarrow>
     getTargetAudience issue = Labels labels
     \<and> render_audience (getTargetAudience issue) = Inr (Some labels)"
  by (simp add: getTargetAudience_def render_audience_def)

lemma audience_of_unlisted_rule:
  "map_of audienceMap issue = None \<Longrightarrow> issue \<notin> set object_prototype \<Longrightarrow>
     getTargetAudience issue = Undefined
     \<and> render_audience (getTargetAudience issue) = Inr None"
  by (simp add: getTargetAudience_def render_audience_def)

lemma audience_table_sizes:
  "length audienceMap = 24 \<and> distinct (map fst audienceMap)
   \<and> (\<forall>e \<in> set audienceMap. length (snd e) \<in> {2, 3})"
  by (simp add: audienceMap_def)

lemma audience_example:
  "getTargetAudience ''image-alt'' =
     Labels [''Blind users'', ''Screen reader users'', ''Low bandwidth users'']
   \<and> getTargetAudience ''WCAG2AA.Principle1.Guideline1_1.1_1_1.H37'' = Undefined"
  by (simp add: getTargetAudience_def audienceMap_def object_prototype_def)

text \<open>
  Claim C10 says that every rule id outside the table yields absent and never an error. The
  lookup is a function of the rule id alone, but for the rule id \<^verbatim>\<open>constructor\<close>, which
  the table does not list, the property read finds the inherited member: the result is not
  absent, and the page's \<^verbatim>\<open>targetAudience.map\<close> then throws.
\<close>

theorem inherited_name_is_not_absent:
  "map_of audienceMap ''constructor'' = None
   \<and> getTargetAudience ''constructor'' = Inherited ''constructor''
   \<and> render_audience (getTargetAudience ''constructor'') = Inl TypeError"
  by (simp add: getTargetAudience_def audienceMap_def object_prototype_def render_audience_def)

section \<open>The streaming loop\<close>

lemma updates_setSolutions: "updates (setSolutions k v st) = updates st @ [(k, v)]"
  by (simp add: setSolutions_def)

lemma stream_loop_result:
  "fst (stream_loop key chunks acc st) = acc @ concat (map delta_content chunks)"
  by (induction chunks arbitrary: acc st) (simp_all add: Let_def)

lemma upt_0_Suc: "[0..<Suc m] = 0 # map Suc [0..<m]"
  by (simp add: upt_conv_Cons map_Suc_upt del: upt_Suc)

lemma stream_loop_updates:
  "updates (snd (stream_loop key chunks acc st)) =
     updates st @
     map (\<lambda>n. (key, acc @ concat (map delta_content (take (Suc n) chunks)))) [0..<length chunks]"
proof (induction chunks arbitrary: acc st)
  case Nil
  then show ?case by simp
next
  case (Cons chunk rest)
  show ?case
    by (simp add: Let_def Cons.IH updates_setSolutions upt_0_Suc comp_def del: upt_Suc)
qed

text \<open>
  Claim C8. When the stream ends normally, the successive values written to the remediation
  state are exactly the concatenations of the first chunk, the first two chunks, and so on
  up to all chunks, in that order, and the returned text is the concatenation of all
  chunks. For the chunks \<open>A\<close>, \<open>B\<close>, \<open>C\<close> the states are \<open>A\<close>, \<open>AB\<close>, \<open>ABC\<close>
  and the result is \<open>ABC\<close>.
\<close>

theorem streamed_states_are_prefixes:
  assumes "keyResponse env = KeyJson apiKey" and "truthy apiKey"
    and "streamResponse env = Chunks chunks None"
  shows "fst (getAISolution env issue descr h st) = Inr (concat (map delta_content chunks))
     \<and> updates (snd (getAISolution env issue descr h st)) =
         updates st @
         map (\<lambda>n. (solution_key issue descr, concat (map delta_content (take (Suc n) chunks))))
           [0..<length chunks]"
proof -
  obtain r st' where l: "stream_loop (solution_key issue descr) chunks [] st = (r, st')"
    by (cases "stream_loop (solution_key issue descr) chunks [] st")
  have "r = concat (map delta_content chunks)"
    using stream_loop_result [of "solution_key issue descr" chunks "[]" st] l by simp
  moreover have "updates st' = updates st @
         map (\<lambda>n. (solution_key issue descr, concat (map delta_content (take (Suc n) chunks))))
           [0..<length chunks]"
    using stream_loop_updates [of "solution_key issue descr" chunks "[]" st] l by simp
  ultimately show ?thesis
    using assms l by (simp add: getAISolution_def Let_def)
qed

theorem streamed_states_are_prefixes_witness:
  "keyResponse llm_abc = KeyJson (Some ''gsk_example'') \<and> truthy (Some ''gsk_example'')
   \<and> streamResponse llm_abc = Chunks [Some ''A'', Some ''B'', Some ''C''] None
   \<and> fst (getAISolution llm_abc ''image-alt'' ''Images must have alternate text'' (Some ''<img>'')
        empty_ui) = Inr ''ABC''
   \<and> updates (snd (getAISolution llm_abc ''image-alt'' ''Images must have alternate text''
        (Some ''<img>'') empty_ui)) =
       [(''image-alt-Images must have alt'', ''A''),
        (''image-alt-Images must have alt'', ''AB''),
        (''image-alt-Images must have alt'', ''ABC'')]"
proof -
  have a: "keyResponse llm_abc = KeyJson (Some ''gsk_example'')" by (simp add: llm_abc_def)
  have b: "truthy (Some ''gsk_example'')" by (simp add: truthy_def)
  have c: "streamResponse llm_abc = Chunks [Some ''A'', Some ''B'', Some ''C''] None"
    by (simp add: llm_abc_def)
  show ?thesis
    using a b c
      streamed_states_are_prefixes [OF a b c, of "''image-alt''"
        "''Images must have alternate text''" "Some ''<img>''" empty_ui]
    by (simp add: delta_content_def or_default_def solution_key_def empty_ui_def)
qed

section \<open>The fallback\<close>

text \<open>
  When the streamed request fails, at its creation or after some chunks, the returned text is
  the plain request's content, or the placeholder when that content is absent or empty; it
  is never empty. When the plain request fails too, the operation throws.
\<close>

lemma or_default_nonempty: "d \<noteq> [] \<Longrightarrow> or_default c d \<noteq> []"
  by (simp add: or_default_def split: option.splits)

lemma fallback_result:
  "response env = Content c \<Longrightarrow>
     fst (fallback env key st) = Inr (or_default c ''No response generated'')"
  by (simp add: fallback_def Let_def)

lemma stream_failure_returns_fallback:
  assumes "keyResponse env = KeyJson apiKey" and "truthy apiKey"
    and "streamResponse env = CreateFails e \<or> streamResponse env = Chunks chunks (Some e)"
    and "response env = Content c"
  shows "fst (getAISolution env issue descr h st) = Inr (or_default c ''No response generated'')"
    and "or_default c ''No response generated'' \<noteq> []"
  using assms by (auto simp: getAISolution_def Let_def fallback_result or_default_nonempty)

lemma both_paths_fail_throws:
  assumes "keyResponse env = KeyJson apiKey" and "truthy apiKey"
    and "streamResponse env = CreateFails e \<or> streamResponse env = Chunks chunks (Some e)"
    and "response env = RequestFails m"
  shows "fst (getAISolution env issue descr h st) = Inl (failed m)"
  using assms by (auto simp: getAISolution_def Let_def fallback_def)


text \<open>
  Claim C4 says that the returned text is never empty. The placeholder is applied on the
  fallback path only: a stream that ends normally without any content (here a single chunk
  with no content) makes the operation return the empty string.
\<close>

theorem empty_stream_returns_empty:
  "fst (getAISolution llm_silent ''image-alt'' ''Images must have alternate text'' (Some ''<img>'')
     empty_ui) = Inr []"
  by (simp add: getAISolution_def llm_silent_def truthy_def Let_def delta_content_def
      or_default_def)

section \<open>The keys of the remediation state\<close>

lemma getAISolution_updates:
  "\<exists>us. updates (snd (getAISolution env issue descr h st)) = updates st @ us
     \<and> (\<forall>kv \<in> set us. fst kv = solution_key issue descr)"
proof -
  let ?k = "solution_key issue descr"
  have loop: "\<exists>us. updates (snd (stream_loop ?k chunks [] st)) = updates st @ us
     \<and> (\<forall>kv \<in> set us. fst kv = ?k)" for chunks
    unfolding stream_loop_updates by auto
  have fb: "\<exists>us. updates (snd (fallback env ?k st')) = updates st' @ us
     \<and> (\<forall>kv \<in> set us. fst kv = ?k)" for st'
    by (cases "response env") (simp_all add: fallback_def Let_def updates_setSolutions)
  show ?thesis
  proof (cases "keyResponse env")
    case (KeyJson apiKey)
    show ?thesis
    proof (cases "truthy apiKey")
      case False
      with KeyJson show ?thesis by (simp add: getAISolution_def Let_def)
    next
      case True
      show ?thesis
      proof (cases "streamResponse env")
        case (CreateFails e)
        with KeyJson True fb [of st] show ?thesis by (simp add: getAISolution_def Let_def)
      next
        case (Chunks chunks fin)
        show ?thesis
        proof (cases fin)
          case None
          with KeyJson True Chunks loop [of chunks] show ?thesis
            by (auto simp: getAISolution_def Let_def split: prod.splits)
        next
          case (Some e)
          obtain us where us: "updates (snd (stream_loop ?k chunks [] st)) = updates st @ us"
            "\<forall>kv \<in> set us. fst kv = ?k"
            using loop [of chunks] by blast
          obtain vs where vs: "updates (snd (fallback env ?k (snd (stream_loop ?k chunks [] st)))) =
              updates (snd (stream_loop ?k chunks [] st)) @ vs" "\<forall>kv \<in> set vs. fst kv = ?k"
            using fb [of "snd (stream_loop ?k chunks [] st)"] by blast
          have "updates (snd (getAISolution env issue descr h st)) = updates st @ (us @ vs)"
            using KeyJson True Chunks Some us(1) vs(1) by (simp add: getAISolution_def Let_def)
          moreover have "\<forall>kv \<in> set (us @ vs). fst kv = ?k" using us(2) vs(2) by auto
          ultimately show ?thesis by blast
        qed
      qed
    qed
  qed (simp_all add: getAISolution_def Let_def)
qed

lemma updates_setLoadingSolutions: "updates (setLoadingSolutions k b st) = updates st"
  by (simp add: setLoadingSolutions_def)

lemma solutions_setLoadingSolutions: "solutions (setLoadingSolutions k b st) = solutions st"
  by (simp add: setLoadingSolutions_def)

lemma solutions_setSolutions: "solutions (setSolutions k v st) k = Some v"
  by (simp add: setSolutions_def)

lemma handleGetSolution_cached:
  "truthy (solutions st (handle_key v i)) \<Longrightarrow> handleGetSolution env v i st = st"
  by (simp add: handleGetSolution_def Let_def)

lemma string_of_nat_0: "string_of_nat 0 = ''0''"
  by (simp add: string_of_nat.simps [of 0] digit_def)

text \<open>
  What the click handler and the remediation operation do to the remediation state, for every
  input. The operation writes under its own key only, made of the rule id and the first 20
  characters of the description, and leaves every other entry as it was. The handler, when
  the entry under its key (rule id and node index) is absent or empty, lets the operation
  run and then writes, under its own key, the returned text or the error message; the
  display reads the handler's key.
\<close>

lemma stream_loop_other_key:
  "k \<noteq> key \<Longrightarrow> solutions (snd (stream_loop key chunks acc st)) k = solutions st k"
  by (induction chunks arbitrary: acc st) (simp_all add: Let_def setSolutions_def)

lemma stream_loop_other_key_pair:
  "stream_loop key chunks acc st = (r, st') \<Longrightarrow> k \<noteq> key \<Longrightarrow> solutions st' k = solutions st k"
  using stream_loop_other_key [of k key chunks acc st] by simp

lemma fallback_other_key:
  "k \<noteq> key \<Longrightarrow> solutions (snd (fallback env key st)) k = solutions st k"
  by (cases "response env") (simp_all add: fallback_def Let_def setSolutions_def)

lemma getAISolution_other_key:
  assumes "k \<noteq> solution_key issue descr"
  shows "solutions (snd (getAISolution env issue descr h st)) k = solutions st k"
proof (cases "keyResponse env")
  case (KeyJson apiKey)
  show ?thesis
  proof (cases "streamResponse env")
    case (CreateFails e)
    with KeyJson assms show ?thesis
      by (simp add: getAISolution_def Let_def fallback_other_key)
  next
    case (Chunks chunks fin)
    with KeyJson assms show ?thesis
      by (cases fin)
        (auto simp: getAISolution_def Let_def fallback_other_key stream_loop_other_key
          split: prod.splits dest: stream_loop_other_key_pair)
  qed
qed (simp_all add: getAISolution_def Let_def)

lemma display_reads_handle_key: "solutionKey (render_node v (i, n)) = handle_key v i"
  by (simp add: render_node_def handle_key_def)

lemma handleGetSolution_writes:
  assumes "\<not> truthy (solutions st (handle_key v i))"
    and "r = getAISolution env (rule_id v) (description v) (or_else (node_html v i) (ctxt v))
               (setLoadingSolutions (handle_key v i) True st)"
    and "x = (case fst r of Inr solution \<Rightarrow> solution
              | Inl message \<Rightarrow> ''Error getting solution: '' @ message)"
  shows "\<exists>us. updates (handleGetSolution env v i st) = updates st @ us @ [(handle_key v i, x)]
          \<and> (\<forall>kv \<in> set us. fst kv = solution_key (rule_id v) (description v))"
    and "solutions (handleGetSolution env v i st) (handle_key v i) = Some x"
proof -
  obtain us where us: "updates (snd r) = updates st @ us"
      "\<forall>kv \<in> set us. fst kv = solution_key (rule_id v) (description v)"
    using getAISolution_updates [of env "rule_id v" "description v"
        "or_else (node_html v i) (ctxt v)" "setLoadingSolutions (handle_key v i) True st"]
    by (auto simp: updates_setLoadingSolutions assms(2))
  have h: "handleGetSolution env v i st =
      setLoadingSolutions (handle_key v i) False (setSolutions (handle_key v i) x (snd r))"
    using assms by (simp add: handleGetSolution_def Let_def split: sum.splits)
  have "updates (handleGetSolution env v i st) = updates st @ us @ [(handle_key v i, x)]"
    by (simp add: h updates_setLoadingSolutions updates_setSolutions us(1))
  then show "\<exists>us. updates (handleGetSolution env v i st) = updates st @ us @ [(handle_key v i, x)]
          \<and> (\<forall>kv \<in> set us. fst kv = solution_key (rule_id v) (description v))"
    using us(2) by blast
  show "solutions (handleGetSolution env v i st) (handle_key v i) = Some x"
    by (simp add: h solutions_setLoadingSolutions solutions_setSolutions)
qed

text \<open>
  Claim C3 says that every read and write of the remediation state uses one key, the triple
  of rule id, description prefix and node index. No key has all three components, and the
  reads and writes do not agree on one: for a click on the first node of a violation while
  the service streams \<open>A\<close>, \<open>B\<close>, \<open>C\<close>, the three streamed states are written under
  rule id and description prefix, the display reads the key of rule id and node index, the
  entry under that key is still absent when the stream has ended, and only the handler's
  last write reaches it.
\<close>

theorem streamed_states_under_unread_key:
  "updates (handleGetSolution llm_abc alt_violation 0 empty_ui) =
     [(''image-alt-Images must have alt'', ''A''),
      (''image-alt-Images must have alt'', ''AB''),
      (''image-alt-Images must have alt'', ''ABC''),
      (''image-alt-0'', ''ABC'')]
   \<and> map solutionKey (render_nodes alt_violation) = [''image-alt-0'']
   \<and> solutions (snd (getAISolution llm_abc (rule_id alt_violation) (description alt_violation)
        (or_else (node_html alt_violation 0) (ctxt alt_violation))
        (setLoadingSolutions ''image-alt-0'' True empty_ui))) ''image-alt-0'' = None"
  by (simp add: handleGetSolution_def handle_key_def alt_violation_def empty_ui_def llm_abc_def
      string_of_nat_0 truthy_def Let_def getAISolution_def solution_key_def delta_content_def
      or_default_def setSolutions_def setLoadingSolutions_def render_nodes_def render_node_def
      displayed_nodes_def enumerate_eq_zip)

end
